theory Spec2Isabelle
  imports Complex_Main
begin

section \<open>Data model (types.ts)\<close>

text \<open>
  JavaScript numbers are modelled as exact rationals: sums and quotients are the
  mathematical ones, without the rounding error of IEEE-754 doubles.  Strings are lists of
  8-bit characters; optional properties are \<open>option\<close> values.
\<close>

record Dimension =
  name :: string
  score :: rat

record Mistake =
  incorrectPhrase :: string
  correction :: string
  explanation :: string

datatype Speaker = User | AI

record ConversationTurn =
  speaker :: Speaker
  turn_text :: string
  mistakes :: "Mistake list option"

record FillerWordUsage =
  word :: string
  count :: int

record AnalysisResult =
  overallScore :: rat
  dimensionAnalysis :: "Dimension list"
  feedback :: "string list"
  fillerWords :: "FillerWordUsage list"
  conversation :: "ConversationTurn list"

section \<open>The consensus aggregator (geminiService.ts)\<close>

subsection \<open>Thrown values and the parsed response\<close>

text \<open>
  A thrown value is either an \<open>Error\<close> instance carrying its message or any other value
  (\<open>error instanceof Error\<close> is false for it).
\<close>

datatype thrown = Error string | NonError

text \<open>
  The value of \<open>JSON.parse(response.text.trim())\<close>: an object shaped by the response
  schema in which each of the five properties may be missing (\<open>undefined\<close>).
\<close>

record ParsedResponse =
  r_overallScore :: "rat option"
  r_dimensionAnalysis :: "Dimension list option"
  r_feedback :: "string list option"
  r_fillerWords :: "FillerWordUsage list option"
  r_conversation :: "ConversationTurn list option"

text \<open>
  One request to the model: \<open>ai.models.generateContent\<close> followed by \<open>JSON.parse\<close>
  either throws (a rejected request, a response without text, malformed JSON) or yields
  the parsed object.
\<close>

type_synonym api_outcome = "thrown + ParsedResponse"

text \<open>
  JavaScript truthiness, as \<open>!x\<close> tests it: a number is falsy when it is \<open>0\<close>, an array
  is always truthy, a missing property (\<open>undefined\<close>) is falsy, and so is the empty string.
\<close>

definition truthy_number :: "rat option \<Rightarrow> bool" where
  "truthy_number x = (case x of None \<Rightarrow> False | Some v \<Rightarrow> v \<noteq> 0)"

definition truthy_array :: "'a list option \<Rightarrow> bool" where
  "truthy_array x = (case x of None \<Rightarrow> False | Some v \<Rightarrow> True)"

definition truthy_string :: "string option \<Rightarrow> bool" where
  "truthy_string x = (case x of None \<Rightarrow> False | Some v \<Rightarrow> v \<noteq> [])"

definition missing_fields_message :: string where
  "missing_fields_message = ''Invalid response structure from API. Missing required fields.''"

definition configuration_message :: string where
  "configuration_message = ''Configuration Error: The API_KEY environment variable is not set. Please add it to your Vercel project's Environment Variables settings and redeploy.''"

definition unknown_message :: string where
  "unknown_message = ''An unknown error occurred during audio analysis.''"

text \<open>\<open>result as AnalysisResult\<close>: the same object, read at its declared type.\<close>

definition as_AnalysisResult :: "ParsedResponse \<Rightarrow> AnalysisResult" where
  "as_AnalysisResult r =
     \<lparr> overallScore = the (r_overallScore r),
       dimensionAnalysis = the (r_dimensionAnalysis r),
       feedback = the (r_feedback r),
       fillerWords = the (r_fillerWords r),
       conversation = the (r_conversation r) \<rparr>"

definition performSingleAnalysis :: "api_outcome \<Rightarrow> thrown + AnalysisResult" where
  "performSingleAnalysis response =
     (case response of
        Inl e \<Rightarrow> Inl e
      | Inr result \<Rightarrow>
          if \<not> truthy_number (r_overallScore result) \<or> \<not> truthy_array (r_dimensionAnalysis result)
             \<or> \<not> truthy_array (r_feedback result) \<or> \<not> truthy_array (r_fillerWords result)
             \<or> \<not> truthy_array (r_conversation result)
          then Inl (Error missing_fields_message)
          else Inr (as_AnalysisResult result))"

subsection \<open>Joining the runs\<close>

text \<open>
  \<open>Promise.all\<close>: the values in the order of the promises when every promise is
  fulfilled, a rejection otherwise.  Among several rejected promises the one that settles
  first gives the reason; the model takes them in list order.
\<close>

fun Promise_all :: "(thrown + 'a) list \<Rightarrow> thrown + 'a list" where
  "Promise_all [] = Inr []"
| "Promise_all (Inl e # ps) = Inl e"
| "Promise_all (Inr v # ps) =
     (case Promise_all ps of Inl e \<Rightarrow> Inl e | Inr vs \<Rightarrow> Inr (v # vs))"

definition analysisRuns :: nat where
  "analysisRuns = 3"

subsection \<open>Averaging the scores\<close>

text \<open>\<open>Array.prototype.reduce\<close> with an initial value is a left fold.\<close>

definition totalOverallScore :: "AnalysisResult list \<Rightarrow> rat" where
  "totalOverallScore results = foldl (\<lambda>sum result. sum + overallScore result) 0 results"

definition totalDimScore :: "AnalysisResult list \<Rightarrow> Dimension \<Rightarrow> rat" where
  "totalDimScore results dimension =
     foldl (\<lambda>sum result.
              sum + (case List.find (\<lambda>d. name d = name dimension) (dimensionAnalysis result) of
                       Some correspondingDim \<Rightarrow> score correspondingDim
                     | None \<Rightarrow> 0))
           0 results"

definition averagedDimensions :: "AnalysisResult list \<Rightarrow> Dimension list \<Rightarrow> Dimension list" where
  "averagedDimensions results dims =
     map (\<lambda>dimension. \<lparr> name = name dimension,
                         score = totalDimScore results dimension / of_nat analysisRuns \<rparr>) dims"

text \<open>
  The body of the \<open>try\<close> block after the join.  \<open>finalResult\<close> is a copy of \<open>results[0]\<close>;
  its array \<open>dimensionAnalysis\<close> is truthy, so the averaged dimensions always replace it.
\<close>

definition mergeResults :: "AnalysisResult list \<Rightarrow> AnalysisResult" where
  "mergeResults results =
     (let finalResult = results ! 0;
          finalResult = finalResult\<lparr> overallScore := totalOverallScore results / of_nat analysisRuns \<rparr>
      in finalResult\<lparr> dimensionAnalysis :=
                        averagedDimensions results (dimensionAnalysis finalResult) \<rparr>)"

text \<open>The \<open>catch\<close> block: an \<open>Error\<close> is rethrown as it is, anything else is replaced.\<close>

definition rethrow :: "thrown \<Rightarrow> thrown" where
  "rethrow e = (case e of Error m \<Rightarrow> Error m | NonError \<Rightarrow> Error unknown_message)"

text \<open>
  \<open>analyzeAudio\<close>: \<open>api_key\<close> is \<open>process.env.API_KEY\<close>, and \<open>ai i\<close> is the outcome of
  the request issued by the \<open>i\<close>-th iteration of the loop.
\<close>

definition analyzeAudio :: "string option \<Rightarrow> (nat \<Rightarrow> api_outcome) \<Rightarrow> thrown + AnalysisResult" where
  "analyzeAudio api_key ai =
     (if \<not> truthy_string api_key then Inl (Error configuration_message)
      else
        (let analysisPromises = map (\<lambda>i. performSingleAnalysis (ai i)) [0..<analysisRuns]
         in case Promise_all analysisPromises of
              Inl e \<Rightarrow> Inl (rethrow e)
            | Inr results \<Rightarrow> Inr (mergeResults results)))"

subsection \<open>The earlier aggregator, averaging by position\<close>

text \<open>
  Another revision of \<open>analyzeAudio\<close> in the repository joins three \<open>callApi()\<close>
  requests, does not validate the parsed objects, averages the dimensions by their position
  and rounds every average with \<open>parseFloat(x.toFixed(2))\<close>.  In that revision the list of
  dimensions is the property \<open>dimensions\<close>; it is read here from \<open>dimensionAnalysis\<close>.

  \<open>toFixed(2)\<close> takes the integer \<open>n\<close> for which \<open>n / 100\<close> is closest to the absolute
  value, the larger one on a tie, and keeps the sign; from \<open>10^21\<close> on it prints the number
  itself.
\<close>

definition toFixed2 :: "rat \<Rightarrow> rat" where
  "toFixed2 x =
     (if 10 ^ 21 \<le> \<bar>x\<bar> then x else sgn x * of_int \<lfloor>\<bar>x\<bar> * 100 + 1 / 2\<rfloor> / 100)"






subsection \<open>The merge policy in the specification's words\<close>




subsection \<open>Example requests\<close>

definition example_response :: "rat \<Rightarrow> (string \<times> rat) list \<Rightarrow> string \<Rightarrow> ParsedResponse" where
  "example_response s dims note =
     \<lparr> r_overallScore = Some s,
       r_dimensionAnalysis = Some (map (\<lambda>(n, v). \<lparr> name = n, score = v \<rparr>) dims),
       r_feedback = Some [note],
       r_fillerWords = Some [\<lparr> word = ''um'', count = 2 \<rparr>],
       r_conversation = Some [\<lparr> speaker = User, turn_text = note, mistakes = None \<rparr>] \<rparr>"

text \<open>The scenario of the specification: overall scores 3, 4, 5 and Clarity 2, 3, 4.\<close>

definition scenario_ai :: "nat \<Rightarrow> api_outcome" where
  "scenario_ai i =
     (if i = 0 then Inr (example_response 3 [(''Clarity'', 2)] ''first'')
      else if i = 1 then Inr (example_response 4 [(''Clarity'', 3)] ''second'')
      else Inr (example_response 5 [(''Clarity'', 4)] ''third''))"



text \<open>The second request is rejected.\<close>

definition rejected_ai :: "nat \<Rightarrow> api_outcome" where
  "rejected_ai i = (if i = 1 then Inl (Error ''quota exceeded'') else scenario_ai i)"

text \<open>The third response has no \<open>feedback\<close>.\<close>

definition incomplete_ai :: "nat \<Rightarrow> api_outcome" where
  "incomplete_ai i =
     (if i = 2 then Inr ((example_response 5 [(''Clarity'', 4)] ''third'')\<lparr> r_feedback := None \<rparr>)
      else scenario_ai i)"

text \<open>The first response has every property, with an overall score of 0.\<close>

definition zero_ai :: "nat \<Rightarrow> api_outcome" where
  "zero_ai i =
     (if i = 0 then Inr (example_response 0 [(''Clarity'', 0)] ''first'') else scenario_ai i)"

section \<open>The mistake highlighter (ResultsCard.tsx)\<close>

subsection \<open>Letter case\<close>

text \<open>
  Texts are modelled over ASCII: the case mappings change the 26 letters and nothing
  else.  \<open>canonicalize\<close> is what a regular expression with the flag \<open>i\<close> applies to both
  the pattern character and the input character before comparing them (the upper-case
  mapping), \<open>toLowerCase\<close> is the string method.
\<close>

definition canonicalize :: "char \<Rightarrow> char" where
  "canonicalize c =
     (let n = (of_char c :: nat) in if 97 \<le> n \<and> n \<le> 122 then char_of (n - 32) else c)"

definition toLowerCase_char :: "char \<Rightarrow> char" where
  "toLowerCase_char c =
     (let n = (of_char c :: nat) in if 65 \<le> n \<and> n \<le> 90 then char_of (n + 32) else c)"

definition toLowerCase :: "string \<Rightarrow> string" where
  "toLowerCase s = map toLowerCase_char s"

subsection \<open>Building the pattern\<close>

definition backslash :: char where
  "backslash = CHR 0x5C"

text \<open>The characters of the class \<^verbatim>\<open>[.*+?^${}()|[\]\\]\<close>.\<close>

definition special_characters :: "char list" where
  "special_characters = ''.*+?^${}()|[]'' @ [backslash]"

text \<open>\<^verbatim>\<open>replace(/[.*+?^${}()|[\]\\]/g, '\\$&')\<close>: a backslash before every character of the class.\<close>

definition escapeRegExp :: "string \<Rightarrow> string" where
  "escapeRegExp s =
     concat (map (\<lambda>c. if c \<in> set special_characters then [backslash, c] else [c]) s)"

fun join :: "string \<Rightarrow> string list \<Rightarrow> string" where
  "join sep [] = []"
| "join sep [x] = x"
| "join sep (x # y # ys) = x @ sep @ join sep (y # ys)"

definition regex_source :: "Mistake list \<Rightarrow> string" where
  "regex_source ms = ''('' @ join ''|'' (map (\<lambda>m. escapeRegExp (incorrectPhrase m)) ms) @ '')''"

subsection \<open>Reading the pattern\<close>

text \<open>
  The pattern grammar, as far as the highlighter can reach it.  The syntax characters of a
  pattern are the fourteen characters above; every other character stands for itself, and
  a backslash before a syntax character makes it stand for itself too.  A pattern in the
  fragment read here is one capturing group holding alternatives of such characters;
  anything else (another escape, a quantifier, a class, a wildcard, an anchor, nesting,
  a malformed pattern) is outside the fragment and read as \<open>None\<close>.
\<close>

datatype token = Literal char | Syntax char

fun tokens :: "string \<Rightarrow> token list option" where
  "tokens [] = Some []"
| "tokens (c # cs) =
     (if c = backslash then
        (case cs of
           [] \<Rightarrow> None
         | d # ds \<Rightarrow>
             if d \<in> set special_characters then map_option ((#) (Literal d)) (tokens ds)
             else None)
      else if c \<in> set special_characters then map_option ((#) (Syntax c)) (tokens cs)
      else map_option ((#) (Literal c)) (tokens cs))"

fun alternatives :: "token list \<Rightarrow> string \<Rightarrow> string list option" where
  "alternatives [] cur = None"
| "alternatives (Literal c # ts) cur = alternatives ts (cur @ [c])"
| "alternatives (Syntax c # ts) cur =
     (if c = CHR ''|'' then map_option ((#) cur) (alternatives ts [])
      else if c = CHR '')'' \<and> ts = [] then Some [cur]
      else None)"

text \<open>\<open>new RegExp(source, 'gi')\<close>: the alternatives of the group, in order.\<close>

definition RegExp_gi :: "string \<Rightarrow> string list option" where
  "RegExp_gi source =
     (case tokens source of
        Some (Syntax c # ts) \<Rightarrow> if c = CHR ''('' then alternatives ts [] else None
      | _ \<Rightarrow> None)"

subsection \<open>Matching and splitting\<close>

text \<open>
  An alternative matches at the start of \<open>s\<close> when its characters equal the first
  characters of \<open>s\<close> after canonicalization.  The group takes the first alternative that
  matches; the result is the length of the match.
\<close>

definition matches_here :: "string \<Rightarrow> string \<Rightarrow> bool" where
  "matches_here alt s =
     (length alt \<le> length s \<and> map canonicalize (take (length alt) s) = map canonicalize alt)"

definition match_at :: "string list \<Rightarrow> string \<Rightarrow> nat option" where
  "match_at alts s = map_option length (List.find (\<lambda>alt. matches_here alt s) alts)"

text \<open>
  \<open>String.prototype.split\<close> with a regular expression that has one capturing group around
  the whole pattern (ECMAScript, \<open>RegExp.prototype[@@split]\<close>).  The loop keeps two
  positions \<open>p \<le> q\<close>; here \<open>pending\<close> is the text between \<open>p\<close> and \<open>q\<close> and \<open>rest\<close> the
  text from \<open>q\<close> on.  A match at \<open>q\<close> that ends at \<open>p\<close> (an empty match with nothing
  pending) is skipped; any other match emits the pending text and then the captured
  text; at the end the pending text is emitted.
\<close>

function split_loop :: "string list \<Rightarrow> string \<Rightarrow> string \<Rightarrow> string list" where
  "split_loop alts pending [] = [pending]"
| "split_loop alts pending (c # cs) =
     (case match_at alts (c # cs) of
        None \<Rightarrow> split_loop alts (pending @ [c]) cs
      | Some n \<Rightarrow>
          if n = 0 \<and> pending = [] then split_loop alts (pending @ [c]) cs
          else pending # take n (c # cs) # split_loop alts [] (drop n (c # cs)))"
  by pat_completeness auto
termination
  by (relation "measure (\<lambda>(alts, pending, rest). 2 * length rest + (if pending = [] then 0 else 1))")
     auto

definition split :: "string list \<Rightarrow> string \<Rightarrow> string list" where
  "split alts s =
     (if s = [] then (case match_at alts [] of Some n \<Rightarrow> [] | None \<Rightarrow> [s])
      else split_loop alts [] s)"

subsection \<open>The component\<close>

text \<open>
  What the component renders, as a list of spans: a fragment of plain text, or a
  highlighted \<open>span\<close> element showing the matched text with the mistake's correction and
  explanation.
\<close>

datatype span = Plain string | Flagged string Mistake

fun span_text :: "span \<Rightarrow> string" where
  "span_text (Plain t) = t"
| "span_text (Flagged t m) = t"

definition render_part :: "Mistake list \<Rightarrow> string \<Rightarrow> span" where
  "render_part ms part =
     (case List.find (\<lambda>m. toLowerCase (incorrectPhrase m) = toLowerCase part) ms of
        Some mistake \<Rightarrow> Flagged part mistake
      | None \<Rightarrow> Plain part)"

datatype render_error = SyntaxError

definition HighlightedText :: "string \<Rightarrow> Mistake list option \<Rightarrow> render_error + span list" where
  "HighlightedText text ms_opt =
     (case ms_opt of
        None \<Rightarrow> Inr [Plain text]
      | Some ms \<Rightarrow>
          if length ms = 0 then Inr [Plain text]
          else
            (case RegExp_gi (regex_source ms) of
               None \<Rightarrow> Inl SyntaxError
             | Some regex \<Rightarrow>
                 (let parts = filter (\<lambda>part. part \<noteq> []) (split regex text)
                  in Inr (map (render_part ms) parts))))"

subsection \<open>Example mistakes\<close>




section \<open>Properties of the aggregator\<close>

lemma Promise_all_fulfilled: "Promise_all (map Inr vs) = Inr vs"
  by (induction vs) simp_all


lemma Promise_all_rejected:
  "Inl e \<in> set ps \<Longrightarrow> \<exists>e'. Promise_all ps = Inl e'"
proof (induction ps)
  case Nil
  then show ?case by simp
next
  case (Cons p ps)
  then show ?case by (cases p) (auto split: sum.splits)
qed

lemma upt_analysisRuns: "[0..<analysisRuns] = [0, 1, 2]"
  by (simp add: analysisRuns_def upt_rec)

lemma analyzeAudio_Inr_iff:
  "analyzeAudio api_key ai = Inr r \<longleftrightarrow>
     truthy_string api_key \<and>
     (\<exists>r0 r1 r2. performSingleAnalysis (ai 0) = Inr r0 \<and> performSingleAnalysis (ai 1) = Inr r1
        \<and> performSingleAnalysis (ai 2) = Inr r2 \<and> r = mergeResults [r0, r1, r2])"
  by (cases "performSingleAnalysis (ai 0)"; cases "performSingleAnalysis (ai 1)";
      cases "performSingleAnalysis (ai 2)")
     (auto simp: analyzeAudio_def upt_analysisRuns)

lemma analyzeAudio_rejected:
  assumes "i < analysisRuns" and "performSingleAnalysis (ai i) = Inl e"
  shows "\<exists>msg. analyzeAudio api_key ai = Inl (Error msg)"
proof (cases "truthy_string api_key")
  case False
  then show ?thesis by (simp add: analyzeAudio_def)
next
  case True
  from assms have "Inl e \<in> set (map (\<lambda>i. performSingleAnalysis (ai i)) [0..<analysisRuns])"
    by (auto simp: image_iff intro!: bexI [of _ i])
  then obtain e' where "Promise_all (map (\<lambda>i. performSingleAnalysis (ai i)) [0..<analysisRuns]) = Inl e'"
    using Promise_all_rejected by blast
  with True show ?thesis
    by (cases e') (simp_all add: analyzeAudio_def rethrow_def)
qed

lemma performSingleAnalysis_Inr_iff:
  "performSingleAnalysis response = Inr r \<longleftrightarrow>
     (\<exists>s ds f fw c. response = Inr \<lparr> r_overallScore = Some s, r_dimensionAnalysis = Some ds,
          r_feedback = Some f, r_fillerWords = Some fw, r_conversation = Some c \<rparr>
        \<and> s \<noteq> 0
        \<and> r = \<lparr> overallScore = s, dimensionAnalysis = ds, feedback = f, fillerWords = fw,
                conversation = c \<rparr>)"
proof (cases response)
  case (Inl e)
  then show ?thesis by (simp add: performSingleAnalysis_def)
next
  case (Inr resp)
  then show ?thesis
    by (cases resp)
       (auto simp: performSingleAnalysis_def truthy_number_def truthy_array_def
          as_AnalysisResult_def split: option.splits)
qed





lemma mergeResults3_qualitative:
  "feedback (mergeResults [r0, r1, r2]) = feedback r0"
  "fillerWords (mergeResults [r0, r1, r2]) = fillerWords r0"
  "conversation (mergeResults [r0, r1, r2]) = conversation r0"
  by (simp_all add: mergeResults_def Let_def)


text \<open>
  \<open>toFixed2\<close> rounds to two decimals: the result is a whole number of hundredths, at most
  half a hundredth away.
\<close>

lemma toFixed2_rounds:
  assumes "\<bar>x\<bar> < 10 ^ 21"
  shows "\<bar>toFixed2 x - x\<bar> \<le> 1 / 200 \<and> (\<exists>n :: int. toFixed2 x = of_int n / 100)"
proof -
  define n where "n = \<lfloor>\<bar>x\<bar> * 100 + 1 / 2\<rfloor>"
  define r :: rat where "r = of_int n"
  have lo: "r \<le> \<bar>x\<bar> * 100 + 1 / 2" and hi: "\<bar>x\<bar> * 100 + 1 / 2 < r + 1"
    unfolding r_def n_def by linarith+
  from assms have val: "toFixed2 x = sgn x * r / 100"
    by (simp add: toFixed2_def r_def n_def)
  consider "x < 0" | "x = 0" | "0 < x"
    by linarith
  then show ?thesis
  proof cases
    case 1
    then have v: "toFixed2 x = - r / 100" and a: "\<bar>x\<bar> = - x"
      by (simp_all add: val)
    from lo hi have "\<bar>- r / 100 - x\<bar> \<le> 1 / 200"
      unfolding a by linarith
    moreover have "toFixed2 x = of_int (- n) / 100"
      by (simp add: v r_def)
    ultimately show ?thesis
      unfolding v by blast
  next
    case 2
    with val have v: "toFixed2 x = 0"
      by simp
    then have "toFixed2 x = of_int 0 / 100"
      by simp
    then have "\<exists>n :: int. toFixed2 x = of_int n / 100"
      by blast
    with 2 v show ?thesis
      by simp
  next
    case 3
    then have v: "toFixed2 x = r / 100" and a: "\<bar>x\<bar> = x"
      by (simp_all add: val)
    from lo hi have "\<bar>r / 100 - x\<bar> \<le> 1 / 200"
      unfolding a by linarith
    moreover have "toFixed2 x = of_int n / 100"
      by (simp add: v r_def)
    ultimately show ?thesis
      unfolding v by blast
  qed
qed

subsection \<open>Averaged scores\<close>







text \<open>
  C3.  A successful aggregation returns the \<open>feedback\<close>, \<open>fillerWords\<close> and
  \<open>conversation\<close> of the first response as they are.
\<close>

theorem qualitative_fields_from_first_run:
  assumes "analyzeAudio api_key ai = Inr r"
  shows "\<exists>response. ai 0 = Inr response \<and> r_feedback response = Some (feedback r) \<and>
           r_fillerWords response = Some (fillerWords r) \<and>
           r_conversation response = Some (conversation r)"
proof -
  from assms obtain r0 r1 r2 where
    r0: "performSingleAnalysis (ai 0) = Inr r0" and r: "r = mergeResults [r0, r1, r2]"
    unfolding analyzeAudio_Inr_iff by blast
  from r0 obtain response where "ai 0 = Inr response"
    "r_feedback response = Some (feedback r0)"
    "r_fillerWords response = Some (fillerWords r0)"
    "r_conversation response = Some (conversation r0)"
    unfolding performSingleAnalysis_Inr_iff by auto
  with r show ?thesis
    by (simp add: mergeResults3_qualitative)
qed

theorem qualitative_fields_from_first_run_witness:
  "analyzeAudio (Some ''key'') scenario_ai =
     Inr \<lparr> overallScore = 4, dimensionAnalysis = [\<lparr> name = ''Clarity'', score = 3 \<rparr>],
           feedback = [''first''], fillerWords = [\<lparr> word = ''um'', count = 2 \<rparr>],
           conversation = [\<lparr> speaker = User, turn_text = ''first'', mistakes = None \<rparr>] \<rparr> \<and>
   (\<exists>response. scenario_ai 0 = Inr response \<and> r_feedback response = Some [''first''] \<and>
      r_fillerWords response = Some [\<lparr> word = ''um'', count = 2 \<rparr>] \<and>
      r_conversation response = Some [\<lparr> speaker = User, turn_text = ''first'', mistakes = None \<rparr>])"
proof -
  have run: "analyzeAudio (Some ''key'') scenario_ai =
     Inr \<lparr> overallScore = 4, dimensionAnalysis = [\<lparr> name = ''Clarity'', score = 3 \<rparr>],
           feedback = [''first''], fillerWords = [\<lparr> word = ''um'', count = 2 \<rparr>],
           conversation = [\<lparr> speaker = User, turn_text = ''first'', mistakes = None \<rparr>] \<rparr>"
    by code_simp
  from qualitative_fields_from_first_run [OF run] run show ?thesis
    by simp
qed

subsection \<open>Failures\<close>

text \<open>
  C4.  If one of the three analysis calls fails, either the request itself or the
  check of its response, the aggregation ends in an error: no result, merged or partial,
  is returned.
\<close>

theorem failed_run_fails_aggregation:
  assumes "i < analysisRuns" and "performSingleAnalysis (ai i) = Inl e"
  shows "\<exists>msg. analyzeAudio api_key ai = Inl (Error msg)"
  using assms analyzeAudio_rejected [of i ai e api_key] by blast

theorem failed_run_fails_aggregation_witness:
  "(1::nat) < analysisRuns \<and>
   performSingleAnalysis (rejected_ai 1) = Inl (Error ''quota exceeded'') \<and>
   (\<exists>msg. analyzeAudio (Some ''key'') rejected_ai = Inl (Error msg))"
proof -
  have i: "(1::nat) < analysisRuns"
    by (simp add: analysisRuns_def)
  have run: "performSingleAnalysis (rejected_ai 1) = Inl (Error ''quota exceeded'')"
    by (simp add: rejected_ai_def performSingleAnalysis_def)
  from failed_run_fails_aggregation [of 1 rejected_ai "Error ''quota exceeded''" "Some ''key''"] i run
  show ?thesis by simp
qed

text \<open>
  C5.  If the parsed response of a run lacks \<open>overallScore\<close>, \<open>dimensionAnalysis\<close>,
  \<open>feedback\<close>, \<open>fillerWords\<close> or \<open>conversation\<close>, that run throws the validation error,
  and the aggregation ends in an error instead of a merged result.
\<close>

theorem missing_field_fails_aggregation:
  assumes "i < analysisRuns" and "ai i = Inr response"
    and "r_overallScore response = None \<or> r_dimensionAnalysis response = None \<or>
         r_feedback response = None \<or> r_fillerWords response = None \<or>
         r_conversation response = None"
  shows "performSingleAnalysis (ai i) = Inl (Error missing_fields_message) \<and>
         (\<exists>msg. analyzeAudio api_key ai = Inl (Error msg))"
proof -
  from assms(2,3) have run: "performSingleAnalysis (ai i) = Inl (Error missing_fields_message)"
    by (auto simp: performSingleAnalysis_def truthy_number_def truthy_array_def)
  from analyzeAudio_rejected [of i ai "Error missing_fields_message" api_key] assms(1) run
  show ?thesis by blast
qed

theorem missing_field_fails_aggregation_witness:
  "(2::nat) < analysisRuns \<and>
   incomplete_ai 2 = Inr ((example_response 5 [(''Clarity'', 4)] ''third'')\<lparr> r_feedback := None \<rparr>) \<and>
   r_feedback ((example_response 5 [(''Clarity'', 4)] ''third'')\<lparr> r_feedback := None \<rparr>) = None \<and>
   performSingleAnalysis (incomplete_ai 2) = Inl (Error missing_fields_message) \<and>
   (\<exists>msg. analyzeAudio (Some ''key'') incomplete_ai = Inl (Error msg))"
proof -
  let ?response = "(example_response 5 [(''Clarity'', 4)] ''third'')\<lparr> r_feedback := None \<rparr>"
  have i: "(2::nat) < analysisRuns"
    by (simp add: analysisRuns_def)
  have run: "incomplete_ai 2 = Inr ?response"
    by (simp add: incomplete_ai_def)
  have missing: "r_feedback ?response = None"
    by simp
  from missing_field_fails_aggregation [of 2 incomplete_ai ?response "Some ''key''"] i run missing
  show ?thesis by simp
qed

text \<open>
  C10.  The validation tests truthiness, not presence: a response whose \<open>overallScore\<close>
  is \<open>0\<close>, a score of the documented range, is rejected with the missing-fields error
  although every required property is present, and the aggregation fails.
\<close>

theorem zero_overallScore_rejected:
  assumes "i < analysisRuns" and "ai i = Inr response"
    and "r_overallScore response = Some 0"
    and "r_dimensionAnalysis response \<noteq> None" and "r_feedback response \<noteq> None"
    and "r_fillerWords response \<noteq> None" and "r_conversation response \<noteq> None"
  shows "performSingleAnalysis (ai i) = Inl (Error missing_fields_message) \<and>
         (\<exists>msg. analyzeAudio api_key ai = Inl (Error msg))"
proof -
  from assms(2,3) have run: "performSingleAnalysis (ai i) = Inl (Error missing_fields_message)"
    by (simp add: performSingleAnalysis_def truthy_number_def)
  from analyzeAudio_rejected [of i ai "Error missing_fields_message" api_key] assms(1) run
  show ?thesis by blast
qed

theorem zero_overallScore_rejected_witness:
  "(0::nat) < analysisRuns \<and>
   zero_ai 0 = Inr (example_response 0 [(''Clarity'', 0)] ''first'') \<and>
   r_overallScore (example_response 0 [(''Clarity'', 0)] ''first'') = Some 0 \<and>
   r_dimensionAnalysis (example_response 0 [(''Clarity'', 0)] ''first'') \<noteq> None \<and>
   r_feedback (example_response 0 [(''Clarity'', 0)] ''first'') \<noteq> None \<and>
   r_fillerWords (example_response 0 [(''Clarity'', 0)] ''first'') \<noteq> None \<and>
   r_conversation (example_response 0 [(''Clarity'', 0)] ''first'') \<noteq> None \<and>
   performSingleAnalysis (zero_ai 0) = Inl (Error missing_fields_message) \<and>
   (\<exists>msg. analyzeAudio (Some ''key'') zero_ai = Inl (Error msg))"
proof -
  let ?response = "example_response 0 [(''Clarity'', 0)] ''first''"
  have i: "(0::nat) < analysisRuns"
    by (simp add: analysisRuns_def)
  have run: "zero_ai 0 = Inr ?response"
    by (simp add: zero_ai_def)
  have fields: "r_overallScore ?response = Some 0" "r_dimensionAnalysis ?response \<noteq> None"
    "r_feedback ?response \<noteq> None" "r_fillerWords ?response \<noteq> None"
    "r_conversation ?response \<noteq> None"
    by (simp_all add: example_response_def)
  from zero_overallScore_rejected [of 0 zero_ai ?response "Some ''key''"] i run fields
  show ?thesis by simp
qed

section \<open>Properties of the highlighter\<close>

subsection \<open>Letter case\<close>





subsection \<open>The pattern is literal\<close>

lemma backslash_special: "backslash \<in> set special_characters"
  by (simp add: special_characters_def)

lemma tokens_escapeRegExp:
  "tokens (escapeRegExp p @ rest) = map_option ((@) (map Literal p)) (tokens rest)"
proof (induction p)
  case Nil
  show ?case by (cases "tokens rest") (simp_all add: escapeRegExp_def)
next
  case (Cons c p)
  have IH: "tokens (escapeRegExp p @ rest) = map_option ((@) (map Literal p)) (tokens rest)"
    by (rule Cons.IH)
  show ?case
  proof (cases "c \<in> set special_characters")
    case True
    then have "tokens (escapeRegExp (c # p) @ rest) =
        map_option ((#) (Literal c)) (tokens (escapeRegExp p @ rest))"
      by (simp add: escapeRegExp_def)
    then show ?thesis
      by (simp add: IH option.map_comp comp_def)
  next
    case False
    then have "c \<noteq> backslash"
      using backslash_special by auto
    with False have "tokens (escapeRegExp (c # p) @ rest) =
        map_option ((#) (Literal c)) (tokens (escapeRegExp p @ rest))"
      by (simp add: escapeRegExp_def)
    then show ?thesis
      by (simp add: IH option.map_comp comp_def)
  qed
qed

lemma alternatives_literals:
  "alternatives (map Literal p @ ts) cur = alternatives ts (cur @ p)"
  by (induction p arbitrary: cur) simp_all

lemma bar_special: "CHR ''|'' \<in> set special_characters" "CHR ''|'' \<noteq> backslash"
  "CHR '')'' \<in> set special_characters" "CHR '')'' \<noteq> backslash"
  "CHR ''('' \<in> set special_characters" "CHR ''('' \<noteq> backslash"
  by (simp_all add: special_characters_def backslash_def)

lemma tokens_joined:
  assumes "ps \<noteq> []"
  shows "\<exists>ts. tokens (join ''|'' (map escapeRegExp ps) @ '')'') = Some ts \<and>
           (\<forall>cur. alternatives ts cur = Some ((cur @ hd ps) # tl ps))"
  using assms
proof (induction ps rule: induct_list012)
  case 1
  then show ?case by simp
next
  case (2 p)
  have "tokens (escapeRegExp p @ '')'') = Some (map Literal p @ [Syntax CHR '')''])"
    by (simp add: tokens_escapeRegExp bar_special)
  then show ?case
    by (simp add: alternatives_literals)
next
  case (3 p q ps)
  then obtain ts where ts: "tokens (join ''|'' (map escapeRegExp (q # ps)) @ '')'') = Some ts"
    and alts: "\<And>cur. alternatives ts cur = Some ((cur @ q) # ps)"
    by auto
  have "tokens (join ''|'' (map escapeRegExp (p # q # ps)) @ '')'') =
      Some (map Literal p @ Syntax CHR ''|'' # ts)"
    using ts by (simp add: tokens_escapeRegExp bar_special)
  then show ?case
    by (simp add: alternatives_literals alts)
qed

lemma RegExp_gi_regex_source:
  assumes "ms \<noteq> []"
  shows "RegExp_gi (regex_source ms) = Some (map incorrectPhrase ms)"
proof -
  from assms have "map incorrectPhrase ms \<noteq> []"
    by simp
  from tokens_joined [OF this] obtain ts where
    ts: "tokens (join ''|'' (map escapeRegExp (map incorrectPhrase ms)) @ '')'') = Some ts"
    and alts: "alternatives ts [] = Some (hd (map incorrectPhrase ms) # tl (map incorrectPhrase ms))"
    by auto
  have "tokens (regex_source ms) = Some (Syntax CHR ''('' # ts)"
    using ts by (simp add: regex_source_def bar_special comp_def)
  with alts \<open>map incorrectPhrase ms \<noteq> []\<close> show ?thesis
    by (simp add: RegExp_gi_def)
qed

subsection \<open>Splitting keeps the text\<close>

lemma concat_split_loop: "concat (split_loop alts pending rest) = pending @ rest"
  by (induction alts pending rest rule: split_loop.induct) (auto split: option.splits)

lemma concat_split: "concat (split alts s) = s"
  by (simp add: split_def concat_split_loop split: option.splits)

lemma concat_filter_nonempty: "concat (filter (\<lambda>part. part \<noteq> []) xs) = concat xs"
  by (induction xs) simp_all

lemma span_text_render_part: "span_text (render_part ms part) = part"
  by (simp add: render_part_def split: option.splits)

lemma HighlightedText_Some:
  assumes "ms \<noteq> []"
  shows "HighlightedText text (Some ms) =
     Inr (map (render_part ms) (filter (\<lambda>part. part \<noteq> []) (split (map incorrectPhrase ms) text)))"
  using assms by (simp add: HighlightedText_def RegExp_gi_regex_source)


subsection \<open>Flagged spans\<close>
















subsection \<open>No mistakes\<close>

text \<open>
  C6.  When \<open>mistakes\<close> is absent or empty, the highlighter renders exactly one plain
  span, holding the whole text unchanged.
\<close>

theorem no_mistakes_one_plain_span:
  "HighlightedText text None = Inr [Plain text] \<and> HighlightedText text (Some []) = Inr [Plain text]"
  by (simp add: HighlightedText_def)

subsection \<open>Round trip\<close>

text \<open>
  C7.  For every text and every list of mistakes, present or not, the highlighter
  returns spans, and their texts, concatenated in order, are the text.
\<close>

theorem spans_concatenate_to_text:
  "\<exists>spans. HighlightedText text ms_opt = Inr spans \<and> concat (map span_text spans) = text"
proof (cases ms_opt)
  case None
  then show ?thesis by (simp add: HighlightedText_def)
next
  case (Some ms)
  show ?thesis
  proof (cases "ms = []")
    case True
    with Some show ?thesis by (simp add: HighlightedText_def)
  next
    case False
    have "concat (map span_text (map (render_part ms)
        (filter (\<lambda>part. part \<noteq> []) (split (map incorrectPhrase ms) text)))) = text"
      by (simp add: comp_def span_text_render_part concat_filter_nonempty concat_split)
    with False Some show ?thesis
      by (simp add: HighlightedText_Some)
  qed
qed

subsection \<open>Literal, case-insensitive matching\<close>




subsection \<open>Empty phrases\<close>





end
